theory Spec2Isabelle
  imports Main "HOL-Library.Word" "HOL-Library.AList"
begin

section \<open>Python values, exceptions and dictionaries\<close>

text \<open>
  The wrappers of \<^verbatim>\<open>perceptron/models/classification/cloud.py\<close> move Python values
  between an image, a vendor SDK and the caller. A value is one of the JSON-like shapes
  that the vendor replies are made of. A float is kept as its 64 bits, since the wrappers
  never compute with one. A dict is an association list in insertion order with string
  keys; lookups take the first binding, and a store replaces the binding in place or
  appends it, as a Python dict does.
\<close>

type_synonym bytes = "8 word list"

datatype pyval =
    PNone
  | PBool bool
  | PInt int
  | PFloat "64 word"
  | PStr string
  | PBytes bytes
  | PList "pyval list"
  | PDict "(string \<times> pyval) list"

type_synonym pydict = "(string \<times> pyval) list"

text \<open>
  The exceptions that the statements of the two source files raise themselves are kept
  apart from the ones that come out of a library or a vendor SDK (\<open>LibraryError\<close>, with
  the text of the exception).
\<close>

datatype py_error =
    AssertionError string
  | ValueError string
  | TypeError string
  | KeyError string
  | UnboundLocalError string
  | LibraryError string

definition contains :: "string \<Rightarrow> pydict \<Rightarrow> bool" where
  \<comment> \<open>\<^verbatim>\<open>key in d\<close>\<close>
  "contains k d = (map_of d k \<noteq> None)"

definition getitem :: "pydict \<Rightarrow> string \<Rightarrow> py_error + pyval" where
  \<comment> \<open>\<^verbatim>\<open>d[key]\<close> on a dict\<close>
  "getitem d k = (case map_of d k of None \<Rightarrow> Inl (KeyError k) | Some v \<Rightarrow> Inr v)"

definition setitem :: "pydict \<Rightarrow> string \<Rightarrow> pyval \<Rightarrow> pydict" where
  \<comment> \<open>\<^verbatim>\<open>d[key] = v\<close> on a dict\<close>
  "setitem d k v = AList.update k v d"

definition subscript :: "pyval \<Rightarrow> string \<Rightarrow> py_error + pyval" where
  \<comment> \<open>\<^verbatim>\<open>x[key]\<close> with a string key on any value: only a dict can be indexed by a string\<close>
  "subscript x k =
     (case x of
        PDict d \<Rightarrow> getitem d k
      | _ \<Rightarrow> Inl (TypeError ''indices must be integers, or the object is not subscriptable''))"

definition is_dict :: "pyval \<Rightarrow> bool" where
  "is_dict v = (case v of PDict _ \<Rightarrow> True | _ \<Rightarrow> False)"

definition is_list_of_dicts :: "pyval \<Rightarrow> bool" where
  "is_list_of_dicts v = (case v of PList xs \<Rightarrow> list_all is_dict xs | _ \<Rightarrow> False)"

definition has_keys :: "string list \<Rightarrow> pyval \<Rightarrow> bool" where
  \<comment> \<open>a dict with exactly these keys\<close>
  "has_keys ks v = (case v of PDict d \<Rightarrow> set (map fst d) = set ks | _ \<Rightarrow> False)"

definition documented_antiporn_shape :: "pyval \<Rightarrow> bool" where
  \<comment> \<open>the docstring of \<^verbatim>\<open>AipAntiPornModel.predictions\<close>: a list whose elements are
      dictionaries containing \<^verbatim>\<open>{'class_name', 'probability'}\<close>\<close>
  "documented_antiporn_shape v =
     (case v of
        PList xs \<Rightarrow> list_all (has_keys [''class_name'', ''probability'']) xs
      | _ \<Rightarrow> False)"

section \<open>Protocol buffer messages\<close>

text \<open>
  A parsed message is the list of its set fields, in field order, as \<^verbatim>\<open>ListFields()\<close>
  reports them. A field holds a scalar (given by its Python value), a message, or a
  repeated scalar or message.
\<close>

datatype pb =
    PbScalar pyval
  | PbMessage "(string \<times> pb) list"
  | PbRepeatedScalar "pyval list"
  | PbRepeatedMessage "(string \<times> pb) list list"

type_synonym message = "(string \<times> pb) list"

text \<open>
  Modelled from the spec: the helper \<^verbatim>\<open>protobuf_to_dict\<close> is not among the sources
  (the Google wrappers import the PyPI package, the offline one the copy under
  \<^verbatim>\<open>perceptron/utils/protobuf\<close>). The spec speaks of reshaping a protobuf structure
  into dicts; here the dict form of a message has one entry per set field, a message
  field converted recursively, a repeated field to a list.
\<close>

fun pb_to_py :: "pb \<Rightarrow> pyval" where
  "pb_to_py (PbScalar v) = v"
| "pb_to_py (PbMessage fs) = PDict (map (\<lambda>kv. (fst kv, pb_to_py (snd kv))) fs)"
| "pb_to_py (PbRepeatedScalar vs) = PList vs"
| "pb_to_py (PbRepeatedMessage ms) =
     PList (map (\<lambda>fs. PDict (map (\<lambda>kv. (fst kv, pb_to_py (snd kv))) fs)) ms)"

definition protobuf_to_dict :: "message \<Rightarrow> pydict" where
  "protobuf_to_dict fs = map (\<lambda>kv. (fst kv, pb_to_py (snd kv))) fs"

section \<open>The outside world\<close>

text \<open>
  A vendor SDK client is an opaque handle. A vendor call is recorded with its arguments.
\<close>

datatype client = ClientHandle nat

record Image =
  content :: bytes

record Request =
  full_url :: string
  post_data :: bytes
  headers :: "(string \<times> string) list"

datatype call =
    AntiPorn client bytes
  | SafeSearchDetection client Image
  | ObjectLocalization client Image
  | UrlOpen Request

text \<open>
  The state that a call of a wrapper method can change besides the model object: the
  vendor calls issued so far (oldest first), the lines printed, and how many numbers the
  process-wide generator of the \<^verbatim>\<open>random\<close> module has handed out.
\<close>

record world =
  trace :: "call list"
  stdout :: "string list"
  random_pos :: nat

text \<open>
  The request message of the offline service. The generated module
  \<^verbatim>\<open>general_classify_client_pb2\<close> is not among the sources; the fields are the ones
  that \<^verbatim>\<open>OfflineAntiPornModel.predictions\<close> assigns. \<open>None\<close> is an unset field.
\<close>

record ClassifyType =
  type_name :: "string option"
  topnum :: "int option"

record GeneralClassifyRequest =
  req_image :: "bytes option"
  classify_type :: "ClassifyType list"

text \<open>
  Everything the wrappers call but do not define: the image encoder of
  \<^verbatim>\<open>perceptron/utils/image.py\<close>, the vendor SDKs, the network, and the \<^verbatim>\<open>base64\<close>,
  \<^verbatim>\<open>ujson\<close>, \<^verbatim>\<open>random\<close> and protobuf libraries. A library call on data that the
  wrapper has just built returns its value. A call that goes to a vendor or to the
  network, that reads what came back from there, or that parses the url the model was
  given, can raise, and then returns the text of the exception on the left. A vendor's
  reply may depend on the calls issued before. \<open>request_url\<close> is what the constructor
  \<^verbatim>\<open>request.Request\<close> makes of a url: the \<^verbatim>\<open>ValueError\<close> it raises (for a url that
  names no scheme, among others), or the url of the request object.
  The process-wide random generator is the sequence of raw numbers it will produce.
\<close>

record 'img env =
  ndarray_to_bytes :: "'img \<Rightarrow> bytes"
  os_environ :: "string \<Rightarrow> string option"
  AipImageCensor :: "pyval \<Rightarrow> pyval \<Rightarrow> pyval \<Rightarrow> string + client"
  ImageAnnotatorClient :: "string + client"
  antiPorn :: "call list \<Rightarrow> client \<Rightarrow> bytes \<Rightarrow> string + pydict"
  safe_search_detection :: "call list \<Rightarrow> client \<Rightarrow> Image \<Rightarrow> string + message"
  object_localization :: "call list \<Rightarrow> client \<Rightarrow> Image \<Rightarrow> string + message"
  request_url :: "string \<Rightarrow> string + string"
  urlopen_read :: "call list \<Rightarrow> Request \<Rightarrow> string + bytes"
  SerializeToString :: "GeneralClassifyRequest \<Rightarrow> bytes"
  ParseFromString :: "bytes \<Rightarrow> string + message"
  b64encode :: "bytes \<Rightarrow> bytes"
  b64decode :: "pyval \<Rightarrow> string + bytes"
  json_dumps :: "pyval \<Rightarrow> string"
  json_loads :: "string \<Rightarrow> string + pyval"
  decode_utf8 :: "bytes \<Rightarrow> string + string"
  random_raw :: "nat \<Rightarrow> nat"

definition raised :: "string + 'a \<Rightarrow> py_error + 'a" where
  \<comment> \<open>an exception of a library propagates unchanged\<close>
  "raised r = (case r of Inl msg \<Rightarrow> Inl (LibraryError msg) | Inr x \<Rightarrow> Inr x)"

definition randint :: "'img env \<Rightarrow> int \<Rightarrow> int \<Rightarrow> world \<Rightarrow> int \<times> world" where
  \<comment> \<open>\<^verbatim>\<open>random.randint(a, b)\<close>: the next raw number, brought into \<open>[a, b]\<close>\<close>
  "randint E a b w =
     (a + int (random_raw E (random_pos w) mod nat (b - a + 1)),
      w\<lparr>random_pos := random_pos w + 1\<rparr>)"

definition encode_ascii :: "string \<Rightarrow> bytes" where
  \<comment> \<open>\<^verbatim>\<open>s.encode('ascii')\<close> on text that \<^verbatim>\<open>ujson.dumps\<close> wrote, which escapes every
      character outside ASCII: one byte per character\<close>
  "encode_ascii s = map of_char s"

text \<open>What a method call leaves behind: its result, the model object and the world.\<close>

record 'm outcome =
  returned :: "py_error + pyval"
  self_after :: 'm
  world_after :: world

section \<open>The model classes\<close>

text \<open>
  Modelled from the spec: the base class \<^verbatim>\<open>perceptron.models.base.Model\<close> is not among
  the sources. The spec describes it as the contract that defines the \<^verbatim>\<open>bounds\<close>,
  \<^verbatim>\<open>channel_axis\<close> and \<^verbatim>\<open>preprocessing\<close> configuration and takes it as already
  implemented; its constructor keeps the three values.
\<close>

record Model =
  bounds :: pyval
  channel_axis :: int
  preprocessing :: pyval

definition Model_init :: "pyval \<Rightarrow> int \<Rightarrow> pyval \<Rightarrow> Model" where
  "Model_init b c p = \<lparr>bounds = b, channel_axis = c, preprocessing = p\<rparr>"

subsection \<open>AIP\<close>

record AipModel = Model +
  appId :: pyval
  apiKey :: pyval
  secretKey :: pyval

definition AipModel_init :: "pyval list \<Rightarrow> pyval \<Rightarrow> int \<Rightarrow> pyval \<Rightarrow> py_error + AipModel" where
  \<comment> \<open>\<^verbatim>\<open>self._appId, self._apiKey, self._secretKey = credential\<close> on a tuple\<close>
  "AipModel_init credential b c p =
     (let base = Model_init b c p in
      if length credential < 3 then Inl (ValueError ''not enough values to unpack'')
      else if length credential > 3 then Inl (ValueError ''too many values to unpack'')
      else Inr \<lparr>bounds = bounds base, channel_axis = channel_axis base,
                preprocessing = preprocessing base,
                appId = credential ! 0, apiKey = credential ! 1,
                secretKey = credential ! 2\<rparr>)"

record AipAntiPornModel = AipModel +
  aip_task :: string
  aip_model :: client

definition AipAntiPornModel_init ::
  "'img env \<Rightarrow> pyval list \<Rightarrow> pyval \<Rightarrow> int \<Rightarrow> pyval \<Rightarrow> py_error + AipAntiPornModel" where
  "AipAntiPornModel_init E credential b c p =
     (case AipModel_init credential b c p of
        Inl e \<Rightarrow> Inl e
      | Inr base \<Rightarrow>
          (case raised (AipImageCensor E (appId base) (apiKey base) (secretKey base)) of
             Inl e \<Rightarrow> Inl e
           | Inr cl \<Rightarrow>
               Inr \<lparr>bounds = bounds base, channel_axis = channel_axis base,
                    preprocessing = preprocessing base,
                    appId = appId base, apiKey = apiKey base, secretKey = secretKey base,
                    aip_task = ''cls'', aip_model = cl\<rparr>))"

definition AipAntiPornModel_predictions ::
  "'img env \<Rightarrow> AipAntiPornModel \<Rightarrow> 'img \<Rightarrow> world \<Rightarrow> AipAntiPornModel outcome" where
  "AipAntiPornModel_predictions E self img w =
     (let image_bytes = ndarray_to_bytes E img;
          w1 = w\<lparr>trace := trace w @ [AntiPorn (aip_model self) image_bytes]\<rparr>
      in case raised (antiPorn E (trace w) (aip_model self) image_bytes) of
           Inl e \<Rightarrow> \<lparr>returned = Inl e, self_after = self, world_after = w1\<rparr>
         | Inr predictions \<Rightarrow>
             if contains ''result'' predictions
             then \<lparr>returned = getitem predictions ''result'', self_after = self,
                   world_after = w1\<rparr>
             else \<lparr>returned = Inr (PDict predictions), self_after = self,
                   world_after = w1\<rparr>)"

subsection \<open>Google Cloud Vision\<close>

definition GoogleCloudModel_init :: "'img env \<Rightarrow> pyval \<Rightarrow> int \<Rightarrow> pyval \<Rightarrow> py_error + Model" where
  \<comment> \<open>\<^verbatim>\<open>assert os.environ.get('GOOGLE_APPLICATION_CREDENTIALS') is not None\<close>\<close>
  "GoogleCloudModel_init E b c p =
     (let base = Model_init b c p in
      if os_environ E ''GOOGLE_APPLICATION_CREDENTIALS'' \<noteq> None then Inr base
      else Inl (AssertionError
                  '' Credential GOOGLE_APPLICATION_CREDENTIALS needs to be set.''))"

record GoogleSafeSearchModel = Model +
  gss_task :: string
  gss_model :: client

definition GoogleSafeSearchModel_init ::
  "'img env \<Rightarrow> pyval \<Rightarrow> int \<Rightarrow> pyval \<Rightarrow> py_error + GoogleSafeSearchModel" where
  "GoogleSafeSearchModel_init E b c p =
     (case GoogleCloudModel_init E b c p of
        Inl e \<Rightarrow> Inl e
      | Inr base \<Rightarrow>
          (case raised (ImageAnnotatorClient E) of
             Inl e \<Rightarrow> Inl e
           | Inr cl \<Rightarrow>
               Inr \<lparr>bounds = bounds base, channel_axis = channel_axis base,
                    preprocessing = preprocessing base,
                    gss_task = ''cls'', gss_model = cl\<rparr>))"

definition GoogleSafeSearchModel_predictions ::
  "'img env \<Rightarrow> GoogleSafeSearchModel \<Rightarrow> 'img \<Rightarrow> world \<Rightarrow> GoogleSafeSearchModel outcome" where
  "GoogleSafeSearchModel_predictions E self img w =
     (let image_bytes = ndarray_to_bytes E img;
          image_msg = \<lparr>content = image_bytes\<rparr>;
          w1 = w\<lparr>trace := trace w @ [SafeSearchDetection (gss_model self) image_msg]\<rparr>
      in case raised (safe_search_detection E (trace w) (gss_model self) image_msg) of
           Inl e \<Rightarrow> \<lparr>returned = Inl e, self_after = self, world_after = w1\<rparr>
         | Inr response \<Rightarrow>
             \<lparr>returned = getitem (protobuf_to_dict response) ''safe_search_annotation'',
              self_after = self, world_after = w1\<rparr>)"

definition localized_object_annotations :: "message \<Rightarrow> message list" where
  \<comment> \<open>the attribute of the reply; a repeated field that is not set reads as empty\<close>
  "localized_object_annotations response =
     (case map_of response ''localized_object_annotations'' of
        Some (PbRepeatedMessage ms) \<Rightarrow> ms
      | _ \<Rightarrow> [])"

fun append_dicts :: "message list \<Rightarrow> pyval list \<Rightarrow> pyval list" where
  \<comment> \<open>\<^verbatim>\<open>for object in response: predictions.append(protobuf_to_dict(object))\<close>\<close>
  "append_dicts [] predictions = predictions"
| "append_dicts (object # response) predictions =
     append_dicts response (predictions @ [PDict (protobuf_to_dict object)])"

record GoogleObjectDetectionModel = Model +
  god_model :: client
  god_task :: string

definition GoogleObjectDetectionModel_init ::
  "'img env \<Rightarrow> pyval \<Rightarrow> int \<Rightarrow> pyval \<Rightarrow> py_error + GoogleObjectDetectionModel" where
  "GoogleObjectDetectionModel_init E b c p =
     (case GoogleCloudModel_init E b c p of
        Inl e \<Rightarrow> Inl e
      | Inr base \<Rightarrow>
          (case raised (ImageAnnotatorClient E) of
             Inl e \<Rightarrow> Inl e
           | Inr cl \<Rightarrow>
               Inr \<lparr>bounds = bounds base, channel_axis = channel_axis base,
                    preprocessing = preprocessing base,
                    god_model = cl, god_task = ''det''\<rparr>))"

definition GoogleObjectDetectionModel_predictions ::
  "'img env \<Rightarrow> GoogleObjectDetectionModel \<Rightarrow> 'img \<Rightarrow> world
     \<Rightarrow> GoogleObjectDetectionModel outcome" where
  "GoogleObjectDetectionModel_predictions E self img w =
     (let image_bytes = ndarray_to_bytes E img;
          image_msg = \<lparr>content = image_bytes\<rparr>;
          w1 = w\<lparr>trace := trace w @ [ObjectLocalization (god_model self) image_msg]\<rparr>
      in case raised (object_localization E (trace w) (god_model self) image_msg) of
           Inl e \<Rightarrow> \<lparr>returned = Inl e, self_after = self, world_after = w1\<rparr>
         | Inr reply \<Rightarrow>
             (let response = localized_object_annotations reply;
                  predictions = append_dicts response []
              in \<lparr>returned = Inr (PList predictions), self_after = self,
                   world_after = w1\<rparr>))"

record GoogleOCRModel = Model +
  ocr_model :: client

definition GoogleOCRModel_init ::
  "'img env \<Rightarrow> pyval \<Rightarrow> int \<Rightarrow> pyval \<Rightarrow> py_error + GoogleOCRModel" where
  "GoogleOCRModel_init E b c p =
     (case GoogleCloudModel_init E b c p of
        Inl e \<Rightarrow> Inl e
      | Inr base \<Rightarrow>
          (case raised (ImageAnnotatorClient E) of
             Inl e \<Rightarrow> Inl e
           | Inr cl \<Rightarrow>
               Inr \<lparr>bounds = bounds base, channel_axis = channel_axis base,
                    preprocessing = preprocessing base, ocr_model = cl\<rparr>))"

definition GoogleOCRModel_predictions ::
  "'img env \<Rightarrow> GoogleOCRModel \<Rightarrow> 'img \<Rightarrow> world \<Rightarrow> GoogleOCRModel outcome" where
  "GoogleOCRModel_predictions E self img w =
     (let image_bytes = ndarray_to_bytes E img;
          image_msg = \<lparr>content = image_bytes\<rparr>;
          w1 = w\<lparr>trace := trace w @ [ObjectLocalization (ocr_model self) image_msg]\<rparr>
      in case raised (object_localization E (trace w) (ocr_model self) image_msg) of
           Inl e \<Rightarrow> \<lparr>returned = Inl e, self_after = self, world_after = w1\<rparr>
         | Inr reply \<Rightarrow>
             (let response = localized_object_annotations reply;
                  predictions = append_dicts response []
              in \<lparr>returned = Inr (PList predictions), self_after = self,
                   world_after = w1\<rparr>))"

subsection \<open>The offline service\<close>

record OfflineAntiPornModel = Model +
  url :: string
  apiType :: "string list"
  off_task :: string

definition OfflineAntiPornModel_init ::
  "string \<Rightarrow> pyval \<Rightarrow> int \<Rightarrow> pyval \<Rightarrow> OfflineAntiPornModel" where
  "OfflineAntiPornModel_init u b c p =
     (let base = Model_init b c p in
      \<lparr>bounds = bounds base, channel_axis = channel_axis base,
       preprocessing = preprocessing base,
       url = u, apiType = [''antiporn''], off_task = ''cls''\<rparr>)"

fun add_classify_types :: "string list \<Rightarrow> GeneralClassifyRequest \<Rightarrow> GeneralClassifyRequest" where
  \<comment> \<open>the loop over \<^verbatim>\<open>self._apiType\<close>: one entry added and named per element\<close>
  "add_classify_types [] proto_data = proto_data"
| "add_classify_types (t # ts) proto_data =
     add_classify_types ts
       (proto_data\<lparr>classify_type :=
          classify_type proto_data @ [\<lparr>type_name = Some t, topnum = None\<rparr>]\<rparr>)"

definition build_proto_data :: "string list \<Rightarrow> bytes \<Rightarrow> py_error + GeneralClassifyRequest" where
  \<comment> \<open>after the loop \<^verbatim>\<open>classifytype\<close> is the entry added last, and unbound when the loop
      did not run; \<^verbatim>\<open>classifytype.topnum = 5\<close> writes to that entry\<close>
  "build_proto_data api_types image_data =
     (let proto_data = add_classify_types api_types
                         \<lparr>req_image = Some image_data, classify_type = []\<rparr>;
          cts = classify_type proto_data
      in if api_types = [] then Inl (UnboundLocalError ''classifytype'')
         else Inr (proto_data\<lparr>classify_type :=
                     cts[length cts - 1 := (last cts)\<lparr>topnum := Some 5\<rparr>]\<rparr>))"

definition req_array :: "'img env \<Rightarrow> int \<Rightarrow> bytes \<Rightarrow> pydict" where
  "req_array E logid data =
     [(''appid'', PStr ''123456''),
      (''logid'', PInt logid),
      (''format'', PStr ''json''),
      (''from'', PStr ''test-python''),
      (''cmdid'', PStr ''123''),
      (''clientip'', PStr ''0.0.0.0''),
      (''data'', PBytes (b64encode E data))]"

definition decode_response :: "'img env \<Rightarrow> bytes \<Rightarrow> py_error + pyval" where
  \<comment> \<open>the statements after the \<^verbatim>\<open>try\<close> block, on the bytes read\<close>
  "decode_response E response =
     (case raised (decode_utf8 E response) of
        Inl e \<Rightarrow> Inl e
      | Inr text \<Rightarrow>
     (case raised (json_loads E text) of
        Inl e \<Rightarrow> Inl e
      | Inr result \<Rightarrow>
     (case subscript result ''result'' of
        Inl e \<Rightarrow> Inl e
      | Inr field \<Rightarrow>
     (case raised (b64decode E field) of
        Inl e \<Rightarrow> Inl e
      | Inr raw \<Rightarrow>
     (case raised (ParseFromString E raw) of
        Inl e \<Rightarrow> Inl e
      | Inr proto_result \<Rightarrow>
          (let result_json = protobuf_to_dict proto_result in
           case result of
             PDict d \<Rightarrow> Inr (PDict (setitem d ''result'' (PDict result_json)))
           | _ \<Rightarrow> Inl (TypeError ''object does not support item assignment'')))))))"

definition Request_init :: "'img env \<Rightarrow> string \<Rightarrow> bytes \<Rightarrow> py_error + Request" where
  \<comment> \<open>\<^verbatim>\<open>request.Request(url, data)\<close>: the constructor parses the url and raises when it
      cannot\<close>
  "Request_init E u d =
     (case raised (request_url E u) of
        Inl e \<Rightarrow> Inl e
      | Inr full \<Rightarrow> Inr \<lparr>full_url = full, post_data = d, headers = []\<rparr>)"

definition add_header :: "Request \<Rightarrow> string \<Rightarrow> string \<Rightarrow> Request" where
  "add_header rq k v = rq\<lparr>headers := headers rq @ [(k, v)]\<rparr>"

definition OfflineAntiPornModel_predictions ::
  "'img env \<Rightarrow> OfflineAntiPornModel \<Rightarrow> 'img \<Rightarrow> world \<Rightarrow> OfflineAntiPornModel outcome" where
  \<comment> \<open>the request is built before the \<^verbatim>\<open>try\<close>, so its exception propagates; an
      exception of \<^verbatim>\<open>urlopen\<close> or \<^verbatim>\<open>read\<close> is caught and printed, and \<^verbatim>\<open>response\<close>
      is then unbound\<close>
  "OfflineAntiPornModel_predictions E self img w =
     (let image_data = ndarray_to_bytes E img in
      case build_proto_data (apiType self) image_data of
        Inl e \<Rightarrow> \<lparr>returned = Inl e, self_after = self, world_after = w\<rparr>
      | Inr proto_data \<Rightarrow>
     (let data = SerializeToString E proto_data;
          (logid, w1) = randint E 1000000 100000000 w;
          req_data = encode_ascii (json_dumps E (PDict (req_array E logid data)))
      in case Request_init E (url self) req_data of
           Inl e \<Rightarrow> \<lparr>returned = Inl e, self_after = self, world_after = w1\<rparr>
         | Inr req0 \<Rightarrow>
     (let req = add_header req0 ''Content-Type'' ''application/json'';
          w2 = w1\<lparr>trace := trace w1 @ [UrlOpen req]\<rparr>
      in case urlopen_read E (trace w1) req of
           Inl e \<Rightarrow>
             \<lparr>returned = Inl (UnboundLocalError ''response''), self_after = self,
              world_after = w2\<lparr>stdout := stdout w2 @ [e]\<rparr>\<rparr>
         | Inr response \<Rightarrow>
             \<lparr>returned = decode_response E response, self_after = self,
              world_after = w2\<rparr>)))"

section \<open>The random number generators of \<^verbatim>\<open>perceptron/utils/rngs.py\<close>\<close>

text \<open>
  The module holds two generators: \<^verbatim>\<open>rng\<close>, a \<^verbatim>\<open>random.Random\<close>, and \<^verbatim>\<open>nprng\<close>, a
  \<^verbatim>\<open>numpy.random.RandomState\<close>. Their states are opaque (\<open>'g\<close> and \<open>'h\<close>); the two
  libraries say how a seed fills a state and how a method call draws from one.
  \<^verbatim>\<open>Random.seed\<close> takes any integer and uses its absolute value;
  \<^verbatim>\<open>RandomState.seed\<close> takes an integer that fits 32 unsigned bits and raises
  \<^verbatim>\<open>ValueError\<close> on any other.
\<close>

record ('g, 'h) rngs =
  rng :: 'g
  nprng :: 'h

record ('g, 'h) random_libs =
  py_init :: "nat \<Rightarrow> 'g"
  np_init :: "nat \<Rightarrow> 'h"
  py_call :: "string \<Rightarrow> pyval list \<Rightarrow> 'g \<Rightarrow> pyval \<times> 'g"
  np_call :: "string \<Rightarrow> pyval list \<Rightarrow> 'h \<Rightarrow> pyval \<times> 'h"

definition Random_seed :: "('g, 'h) random_libs \<Rightarrow> int \<Rightarrow> 'g" where
  "Random_seed L seed = py_init L (nat \<bar>seed\<bar>)"

definition RandomState_seed :: "('g, 'h) random_libs \<Rightarrow> int \<Rightarrow> py_error + 'h" where
  "RandomState_seed L seed =
     (if 0 \<le> seed \<and> seed < 2 ^ 32 then Inr (np_init L (nat seed))
      else Inl (ValueError ''Seed must be between 0 and 2**32 - 1''))"

definition set_seeds ::
  "('g, 'h) random_libs \<Rightarrow> int \<Rightarrow> ('g, 'h) rngs \<Rightarrow> py_error option \<times> ('g, 'h) rngs" where
  \<comment> \<open>\<^verbatim>\<open>rng.seed(seed); nprng.seed(seed)\<close>: the exception raised, if any, and the module\<close>
  "set_seeds L seed m =
     (let m1 = m\<lparr>rng := Random_seed L seed\<rparr> in
      case RandomState_seed L seed of
        Inl e \<Rightarrow> (Some e, m1)
      | Inr st \<Rightarrow> (None, m1\<lparr>nprng := st\<rparr>))"

text \<open>A request to draw: a method of one of the two generators, with its arguments.\<close>

datatype draw = FromRng string "pyval list" | FromNprng string "pyval list"

fun draw_all ::
  "('g, 'h) random_libs \<Rightarrow> draw list \<Rightarrow> ('g, 'h) rngs \<Rightarrow> pyval list \<times> ('g, 'h) rngs" where
  "draw_all L [] m = ([], m)"
| "draw_all L (FromRng f args # ds) m =
     (let (v, g) = py_call L f args (rng m);
          (vs, m') = draw_all L ds (m\<lparr>rng := g\<rparr>)
      in (v # vs, m'))"
| "draw_all L (FromNprng f args # ds) m =
     (let (v, h) = np_call L f args (nprng m);
          (vs, m') = draw_all L ds (m\<lparr>nprng := h\<rparr>)
      in (v # vs, m'))"

section \<open>Observations on a call\<close>

definition issued :: "world \<Rightarrow> 'm outcome \<Rightarrow> call list" where
  \<comment> \<open>the vendor calls that a method call starting in world \<open>w\<close> has added\<close>
  "issued w out = drop (length (trace w)) (trace (world_after out))"

fun sent_bodies :: "call list \<Rightarrow> bytes list" where
  \<comment> \<open>the bodies of the HTTP requests among the calls\<close>
  "sent_bodies [] = []"
| "sent_bodies (UrlOpen rq # cs) = post_data rq # sent_bodies cs"
| "sent_bodies (c # cs) = sent_bodies cs"

definition is_assertion_error :: "py_error + 'a \<Rightarrow> bool" where
  "is_assertion_error r = (case r of Inl (AssertionError msg) \<Rightarrow> True | _ \<Rightarrow> False)"

definition antiporn_request :: "bytes \<Rightarrow> GeneralClassifyRequest" where
  \<comment> \<open>the request message as the spec words it: the image bytes, and exactly one
      classify type, named \<^verbatim>\<open>antiporn\<close>, with \<^verbatim>\<open>topnum\<close> 5\<close>
  "antiporn_request image_data =
     \<lparr>req_image = Some image_data,
      classify_type = [\<lparr>type_name = Some ''antiporn'', topnum = Some 5\<rparr>]\<rparr>"

definition envelope :: "'img env \<Rightarrow> int \<Rightarrow> bytes \<Rightarrow> bytes" where
  \<comment> \<open>the body as the spec words it: the ASCII JSON text of the request object, whose
      \<^verbatim>\<open>data\<close> is the base64 text of the serialized message\<close>
  "envelope E logid data = encode_ascii (json_dumps E (PDict (req_array E logid data)))"

definition two_calls ::
  "'img env \<Rightarrow> OfflineAntiPornModel \<Rightarrow> 'img \<Rightarrow> world \<Rightarrow> OfflineAntiPornModel outcome" where
  \<comment> \<open>\<^verbatim>\<open>m.predictions(image); m.predictions(image)\<close>\<close>
  "two_calls E self img w =
     (let first = OfflineAntiPornModel_predictions E self img w in
      OfflineAntiPornModel_predictions E (self_after first) img (world_after first))"

section \<open>A sample environment\<close>

text \<open>
  One concrete outside world, to run the wrappers on: images are rows of pixel values,
  the vendors answer with fixed replies, text is written as compact JSON, and the random
  generator produces 0, 1, 2, ...
\<close>

definition digit :: "nat \<Rightarrow> char" where
  "digit d = ''0123456789'' ! d"

fun decimal :: "nat \<Rightarrow> string" where
  "decimal n = (if n < 10 then [digit n] else decimal (n div 10) @ [digit (n mod 10)])"

declare decimal.simps [simp del]

fun escaped :: "string \<Rightarrow> string" where
  \<comment> \<open>the quote, the backslash and the slash get a backslash, as \<^verbatim>\<open>ujson\<close> writes them\<close>
  "escaped [] = []"
| "escaped (c # cs) =
     (if c = CHR 0x22 \<or> c = CHR 0x5C \<or> c = CHR 0x2F then CHR 0x5C # c # escaped cs
      else c # escaped cs)"

definition quoted :: "string \<Rightarrow> string" where
  "quoted s = CHR 0x22 # escaped s @ [CHR 0x22]"

definition dump_scalar :: "pyval \<Rightarrow> string" where
  \<comment> \<open>bytes are written as the string of their characters\<close>
  "dump_scalar v =
     (case v of
        PNone \<Rightarrow> ''null''
      | PBool b \<Rightarrow> (if b then ''true'' else ''false'')
      | PInt i \<Rightarrow> (if i < 0 then CHR ''-'' # decimal (nat (- i)) else decimal (nat i))
      | PStr t \<Rightarrow> quoted t
      | PBytes bs \<Rightarrow> quoted (map (\<lambda>b. char_of (unat b)) bs)
      | _ \<Rightarrow> ''null'')"

fun dump_items :: "pydict \<Rightarrow> string" where
  "dump_items [] = []"
| "dump_items [kv] = quoted (fst kv) @ '':'' @ dump_scalar (snd kv)"
| "dump_items (kv # d) = quoted (fst kv) @ '':'' @ dump_scalar (snd kv) @ '','' @ dump_items d"

definition sample_dumps :: "pyval \<Rightarrow> string" where
  \<comment> \<open>compact JSON for a scalar or a dict of scalars, which is all that is ever dumped\<close>
  "sample_dumps v = (case v of PDict d \<Rightarrow> ''{'' @ dump_items d @ ''}'' | _ \<Rightarrow> dump_scalar v)"

definition b64_char :: "nat \<Rightarrow> 8 word" where
  "b64_char n =
     of_char (''ABCDEFGHIJKLMNOPQRSTUVWXYZabcdefghijklmnopqrstuvwxyz0123456789+/'' ! n)"

fun b64_groups :: "nat list \<Rightarrow> bytes" where
  "b64_groups [] = []"
| "b64_groups [a] =
     [b64_char (a div 4), b64_char (a mod 4 * 16), 0x3D, 0x3D]"
| "b64_groups [a, b] =
     [b64_char (a div 4), b64_char (a mod 4 * 16 + b div 16), b64_char (b mod 16 * 4), 0x3D]"
| "b64_groups (a # b # c # bs) =
     [b64_char (a div 4), b64_char (a mod 4 * 16 + b div 16),
      b64_char (b mod 16 * 4 + c div 64), b64_char (c mod 64)] @ b64_groups bs"

definition sample_b64encode :: "bytes \<Rightarrow> bytes" where
  "sample_b64encode bs = b64_groups (map unat bs)"

definition sample_serialize :: "GeneralClassifyRequest \<Rightarrow> bytes" where
  \<comment> \<open>a stand-in for the wire format, whose field numbers are in the generated module: the
      image bytes, then each classify type's name and \<^verbatim>\<open>topnum\<close>\<close>
  "sample_serialize rq =
     (case req_image rq of None \<Rightarrow> [] | Some bs \<Rightarrow> bs) @
     concat (map (\<lambda>ct. (case type_name ct of None \<Rightarrow> [] | Some t \<Rightarrow> map of_char t) @
                        (case topnum ct of None \<Rightarrow> [] | Some n \<Rightarrow> [of_int n]))
                 (classify_type rq))"

definition sample_aip_reply :: pydict where
  "sample_aip_reply =
     [(''log_id'', PInt 7),
      (''result'',
         PList [PDict [(''class_name'', PStr ''normal''),
                       (''probability'', PFloat 0x3FEF5C28F5C28F5C)],
                PDict [(''class_name'', PStr ''porn''),
                       (''probability'', PFloat 0x3F747AE147AE147B)]])]"

definition sample_safe_search_reply :: message where
  "sample_safe_search_reply =
     [(''safe_search_annotation'',
         PbMessage [(''adult'', PbScalar (PInt 1)), (''spoof'', PbScalar (PInt 1)),
                    (''medical'', PbScalar (PInt 2)), (''violence'', PbScalar (PInt 1)),
                    (''racy'', PbScalar (PInt 2))])]"

definition sample_objects_reply :: message where
  "sample_objects_reply =
     [(''localized_object_annotations'',
         PbRepeatedMessage
           [[(''mid'', PbScalar (PStr ''/m/01yrx'')), (''name'', PbScalar (PStr ''Cat'')),
             (''score'', PbScalar (PFloat 0x3FEF5C28F5C28F5C))]])]"

definition sample_response_text :: string where
  "sample_response_text = ''{'' @ quoted ''err_no'' @ '':0,'' @ quoted ''result'' @ '':''
                            @ quoted ''CgA='' @ ''}''"

definition sample_classify_response :: message where
  "sample_classify_response =
     [(''result'',
         PbRepeatedMessage
           [[(''class_name'', PbScalar (PStr ''normal'')),
             (''probability'', PbScalar (PFloat 0x3FEF5C28F5C28F5C))]])]"

definition names_scheme :: "string \<Rightarrow> bool" where
  \<comment> \<open>the first check of \<^verbatim>\<open>request.Request\<close>: the url starts with one or more characters
      other than \<^verbatim>\<open>/\<close> and \<^verbatim>\<open>:\<close>, followed by a colon\<close>
  "names_scheme u =
     (takeWhile (\<lambda>c. c \<noteq> CHR ''/'' \<and> c \<noteq> CHR '':'') u \<noteq> [] \<and>
      (case dropWhile (\<lambda>c. c \<noteq> CHR ''/'' \<and> c \<noteq> CHR '':'') u of
         [] \<Rightarrow> False
       | c # rest \<Rightarrow> c = CHR '':''))"

definition sample_env :: "nat list list env" where
  "sample_env =
     \<lparr>ndarray_to_bytes = (\<lambda>rows. map of_nat (concat rows)),
      os_environ = [''GOOGLE_APPLICATION_CREDENTIALS'' \<mapsto> ''/etc/vision-key.json''],
      AipImageCensor = (\<lambda>a k s. Inr (ClientHandle 1)),
      ImageAnnotatorClient = Inr (ClientHandle 2),
      antiPorn = (\<lambda>tr cl bs. Inr sample_aip_reply),
      safe_search_detection = (\<lambda>tr cl im. Inr sample_safe_search_reply),
      object_localization = (\<lambda>tr cl im. Inr sample_objects_reply),
      request_url =
        (\<lambda>u. if names_scheme u then Inr u else Inl ''ValueError: unknown url type''),
      urlopen_read = (\<lambda>tr rq. Inr (encode_ascii sample_response_text)),
      SerializeToString = sample_serialize,
      ParseFromString =
        (\<lambda>raw. if raw = [0x0A, 0x00] then Inr sample_classify_response
               else Inl ''DecodeError''),
      b64encode = sample_b64encode,
      b64decode =
        (\<lambda>v. if v = PStr ''CgA='' then Inr [0x0A, 0x00] else Inl ''binascii.Error''),
      json_dumps = sample_dumps,
      json_loads =
        (\<lambda>t. if t = sample_response_text
              then Inr (PDict [(''err_no'', PInt 0), (''result'', PStr ''CgA='')])
              else Inl ''ValueError''),
      decode_utf8 = (\<lambda>bs. Inr (map (\<lambda>b. char_of (unat b)) bs)),
      random_raw = (\<lambda>n. n)\<rparr>"

definition sample_image :: "nat list list" where
  "sample_image = [[255, 0], [0, 255]]"

definition world0 :: world where
  "world0 = \<lparr>trace = [], stdout = [], random_pos = 0\<rparr>"

definition sample_config :: Model where
  "sample_config = Model_init (PList [PInt 0, PInt 255]) 3 (PList [PInt 0, PInt 1])"

definition sample_offline :: OfflineAntiPornModel where
  "sample_offline =
     OfflineAntiPornModel_init ''http://localhost:8080/classify''
       (bounds sample_config) (channel_axis sample_config) (preprocessing sample_config)"

definition sample_offline_no_scheme :: OfflineAntiPornModel where
  \<comment> \<open>a model whose url names no scheme\<close>
  "sample_offline_no_scheme =
     OfflineAntiPornModel_init ''www.example.com/classify''
       (bounds sample_config) (channel_axis sample_config) (preprocessing sample_config)"

definition sample_aip :: AipAntiPornModel where
  "sample_aip =
     \<lparr>bounds = bounds sample_config, channel_axis = channel_axis sample_config,
      preprocessing = preprocessing sample_config,
      appId = PStr ''id'', apiKey = PStr ''key'', secretKey = PStr ''secret'',
      aip_task = ''cls'', aip_model = ClientHandle 1\<rparr>"

definition sample_aip_error_reply :: pydict where
  "sample_aip_error_reply =
     [(''error_code'', PInt 216201), (''error_msg'', PStr ''image format error''),
      (''log_id'', PInt 8)]"

definition posted_request :: "'img env \<Rightarrow> string \<Rightarrow> 'img \<Rightarrow> world \<Rightarrow> Request" where
  \<comment> \<open>the HTTP request as the spec words it, for a model whose url the request constructor
      reads as \<open>full\<close>: a POST to it whose body is the envelope of the serialized antiporn
      request for the image, with the log id drawn in world \<open>w\<close>\<close>
  "posted_request E full img w =
     \<lparr>full_url = full,
      post_data = envelope E (fst (randint E 1000000 100000000 w))
                    (SerializeToString E (antiporn_request (ndarray_to_bytes E img))),
      headers = [(''Content-Type'', ''application/json'')]\<rparr>"

definition sample_safe_search :: GoogleSafeSearchModel where
  "sample_safe_search =
     \<lparr>bounds = bounds sample_config, channel_axis = channel_axis sample_config,
      preprocessing = preprocessing sample_config,
      gss_task = ''cls'', gss_model = ClientHandle 2\<rparr>"

definition sample_detection :: GoogleObjectDetectionModel where
  "sample_detection =
     \<lparr>bounds = bounds sample_config, channel_axis = channel_axis sample_config,
      preprocessing = preprocessing sample_config,
      god_model = ClientHandle 2, god_task = ''det''\<rparr>"

definition sample_ocr :: GoogleOCRModel where
  "sample_ocr =
     \<lparr>bounds = bounds sample_config, channel_axis = channel_axis sample_config,
      preprocessing = preprocessing sample_config, ocr_model = ClientHandle 2\<rparr>"

definition sample_libs :: "(nat, nat) random_libs" where
  \<comment> \<open>two small congruential generators in place of the Mersenne twisters\<close>
  "sample_libs =
     \<lparr>py_init = (\<lambda>s. s mod 2147483648),
      np_init = (\<lambda>s. (s + 1) mod 2147483648),
      py_call = (\<lambda>f args g. (PInt (int g), (1103515245 * g + 12345) mod 2147483648)),
      np_call = (\<lambda>f args h. (PInt (int h), (1664525 * h + 1013904223) mod 2147483648))\<rparr>"

definition sample_rngs :: "(nat, nat) rngs" where
  "sample_rngs = \<lparr>rng = 17, nprng = 23\<rparr>"

section \<open>Properties of the wrappers\<close>

subsection \<open>What \<^verbatim>\<open>AipAntiPornModel.predictions\<close> returns\<close>

text \<open>
  C3. When the vendor call returns the dict \<open>r\<close>, \<^verbatim>\<open>AipAntiPornModel.predictions\<close> returns
  \<open>r['result']\<close> if \<open>result\<close> is a key of \<open>r\<close>, and \<open>r\<close> itself otherwise; in the first
  case the value returned has the documented shape (a list of dicts with the keys
  \<open>class_name\<close> and \<open>probability\<close>) whenever \<open>r['result']\<close> has it.
\<close>

theorem aip_predictions_result:
  assumes "antiPorn E (trace w) (aip_model self) (ndarray_to_bytes E img) = Inr r"
  shows "(\<forall>v. map_of r ''result'' = Some v \<longrightarrow>
            returned (AipAntiPornModel_predictions E self img w) = Inr v) \<and>
         (map_of r ''result'' = None \<longrightarrow>
            returned (AipAntiPornModel_predictions E self img w) = Inr (PDict r)) \<and>
         (\<forall>v. map_of r ''result'' = Some v \<and> documented_antiporn_shape v \<longrightarrow>
            (\<exists>v'. returned (AipAntiPornModel_predictions E self img w) = Inr v' \<and>
                  documented_antiporn_shape v'))"
  using assms
  by (simp add: AipAntiPornModel_predictions_def raised_def contains_def getitem_def Let_def)

theorem aip_predictions_result_witness:
  "returned (AipAntiPornModel_predictions sample_env sample_aip sample_image world0) =
     Inr (PList [PDict [(''class_name'', PStr ''normal''),
                        (''probability'', PFloat 0x3FEF5C28F5C28F5C)],
                 PDict [(''class_name'', PStr ''porn''),
                        (''probability'', PFloat 0x3F747AE147AE147B)]]) \<and>
   documented_antiporn_shape
     (PList [PDict [(''class_name'', PStr ''normal''),
                    (''probability'', PFloat 0x3FEF5C28F5C28F5C)],
             PDict [(''class_name'', PStr ''porn''),
                    (''probability'', PFloat 0x3F747AE147AE147B)]]) \<and>
   returned (AipAntiPornModel_predictions
               (sample_env\<lparr>antiPorn := (\<lambda>tr cl bs. Inr sample_aip_error_reply)\<rparr>)
               sample_aip sample_image world0) =
     Inr (PDict sample_aip_error_reply)"
proof -
  have r: "antiPorn sample_env (trace world0) (aip_model sample_aip)
             (ndarray_to_bytes sample_env sample_image) = Inr sample_aip_reply"
    by (simp add: sample_env_def)
  have m: "map_of sample_aip_reply ''result'' =
             Some (PList [PDict [(''class_name'', PStr ''normal''),
                                 (''probability'', PFloat 0x3FEF5C28F5C28F5C)],
                          PDict [(''class_name'', PStr ''porn''),
                                 (''probability'', PFloat 0x3F747AE147AE147B)]])"
    by (simp add: sample_aip_reply_def)
  have s: "documented_antiporn_shape
             (PList [PDict [(''class_name'', PStr ''normal''),
                            (''probability'', PFloat 0x3FEF5C28F5C28F5C)],
                     PDict [(''class_name'', PStr ''porn''),
                            (''probability'', PFloat 0x3F747AE147AE147B)]])"
    by (simp add: documented_antiporn_shape_def has_keys_def)
  have r': "antiPorn (sample_env\<lparr>antiPorn := (\<lambda>tr cl bs. Inr sample_aip_error_reply)\<rparr>)
              (trace world0) (aip_model sample_aip)
              (ndarray_to_bytes
                 (sample_env\<lparr>antiPorn := (\<lambda>tr cl bs. Inr sample_aip_error_reply)\<rparr>)
                 sample_image) = Inr sample_aip_error_reply"
    by simp
  have m': "map_of sample_aip_error_reply ''result'' = None"
    by (simp add: sample_aip_error_reply_def)
  from aip_predictions_result [OF r] aip_predictions_result [OF r'] m m' s
  show ?thesis by simp
qed

subsection \<open>The model object is left as it was\<close>

text \<open>
  C5. Every \<^verbatim>\<open>predictions\<close> method leaves the model object as it found it: after the
  call all fields of the instance (for the offline model the url, the api types, the task
  and the inherited bounds, channel axis and preprocessing) have the values they had
  before, whatever the vendor answers and whether or not the call raises.
\<close>

theorem predictions_keep_the_model:
  "self_after (AipAntiPornModel_predictions E a img w) = a \<and>
   self_after (GoogleSafeSearchModel_predictions E s img w) = s \<and>
   self_after (GoogleObjectDetectionModel_predictions E d img w) = d \<and>
   self_after (GoogleOCRModel_predictions E c img w) = c \<and>
   self_after (OfflineAntiPornModel_predictions E f img w) = f"
  by (simp add: AipAntiPornModel_predictions_def GoogleSafeSearchModel_predictions_def
        GoogleObjectDetectionModel_predictions_def GoogleOCRModel_predictions_def
        OfflineAntiPornModel_predictions_def Let_def
      split: sum.split prod.split)

subsection \<open>Helper facts\<close>

lemma append_dicts_map:
  "append_dicts obs ps = ps @ map (\<lambda>ob. PDict (protobuf_to_dict ob)) obs"
  by (induction obs arbitrary: ps) simp_all

lemma build_proto_data_antiporn:
  "build_proto_data [''antiporn''] image_data = Inr (antiporn_request image_data)"
  by (simp add: build_proto_data_def antiporn_request_def Let_def)

lemma sample_url_accepted:
  "request_url sample_env ''http://localhost:8080/classify''
     = Inr ''http://localhost:8080/classify''"
  by (simp add: sample_env_def names_scheme_def)

lemma sample_url_rejected:
  "request_url sample_env ''www.example.com/classify'' = Inl ''ValueError: unknown url type''"
  by (simp add: sample_env_def names_scheme_def)

lemma offline_predictions_unfold:
  "request_url E u = Inr full \<Longrightarrow>
   OfflineAntiPornModel_predictions E (OfflineAntiPornModel_init u b c p) img w =
     (let w1 = snd (randint E 1000000 100000000 w);
          w2 = w1\<lparr>trace := trace w @ [UrlOpen (posted_request E full img w)]\<rparr>
      in case urlopen_read E (trace w) (posted_request E full img w) of
           Inl e \<Rightarrow> \<lparr>returned = Inl (UnboundLocalError ''response''),
                     self_after = OfflineAntiPornModel_init u b c p,
                     world_after = w2\<lparr>stdout := stdout w @ [e]\<rparr>\<rparr>
         | Inr response \<Rightarrow> \<lparr>returned = decode_response E response,
                     self_after = OfflineAntiPornModel_init u b c p,
                     world_after = w2\<rparr>)"
  by (simp add: OfflineAntiPornModel_predictions_def OfflineAntiPornModel_init_def
        Model_init_def build_proto_data_antiporn posted_request_def envelope_def randint_def
        Request_init_def raised_def add_header_def Let_def split: sum.split prod.split)

lemma offline_predictions_rejected:
  "request_url E u = Inl msg \<Longrightarrow>
   OfflineAntiPornModel_predictions E (OfflineAntiPornModel_init u b c p) img w =
     \<lparr>returned = Inl (LibraryError msg),
      self_after = OfflineAntiPornModel_init u b c p,
      world_after = snd (randint E 1000000 100000000 w)\<rparr>"
  by (simp add: OfflineAntiPornModel_predictions_def OfflineAntiPornModel_init_def
        Model_init_def build_proto_data_antiporn randint_def
        Request_init_def raised_def Let_def split: sum.split prod.split)

lemma randint_trace: "trace (snd (randint E a b w)) = trace w"
  by (simp add: randint_def)

lemma offline_issued:
  "issued w (OfflineAntiPornModel_predictions E (OfflineAntiPornModel_init u b c p) img w) =
     (case request_url E u of
        Inl msg \<Rightarrow> []
      | Inr full \<Rightarrow> [UrlOpen (posted_request E full img w)])"
proof (cases "request_url E u")
  case (Inl msg)
  then show ?thesis
    by (simp add: issued_def offline_predictions_rejected [OF Inl] randint_trace)
next
  case (Inr full)
  then show ?thesis
    by (simp add: issued_def offline_predictions_unfold [OF Inr] Let_def split: sum.split)
qed

lemma offline_world_after:
  "request_url E u = Inr full \<Longrightarrow>
   trace (world_after (OfflineAntiPornModel_predictions E (OfflineAntiPornModel_init u b c p) img w))
     = trace w @ [UrlOpen (posted_request E full img w)]"
  by (simp add: offline_predictions_unfold [of E u full] Let_def split: sum.split)

subsection \<open>One vendor call per invocation\<close>

text \<open>
  C6, as stated, fails. The claim is that a single invocation of any wrapper's
  \<^verbatim>\<open>predictions\<close> issues exactly one vendor call. An offline model takes any string as
  its url; when the url names no scheme, \<^verbatim>\<open>request.Request(self.url, req_data)\<close>, which
  stands before the \<^verbatim>\<open>try\<close>, raises \<^verbatim>\<open>ValueError\<close>, and the invocation issues no call.
  The sample environment refuses such a url as the library does.
\<close>

theorem offline_without_scheme_issues_no_call:
  "issued world0
     (OfflineAntiPornModel_predictions sample_env sample_offline_no_scheme sample_image world0)
     = [] \<and>
   returned
     (OfflineAntiPornModel_predictions sample_env sample_offline_no_scheme sample_image world0)
     = Inl (LibraryError ''ValueError: unknown url type'')"
proof -
  have a: "issued world0
     (OfflineAntiPornModel_predictions sample_env sample_offline_no_scheme sample_image world0)
     = []"
    unfolding sample_offline_no_scheme_def
    by (simp only: offline_issued sample_url_rejected sum.case)
  have b: "returned
     (OfflineAntiPornModel_predictions sample_env sample_offline_no_scheme sample_image world0)
     = Inl (LibraryError ''ValueError: unknown url type'')"
    unfolding sample_offline_no_scheme_def
    by (simp add: offline_predictions_rejected [OF sample_url_rejected])
  from a b show ?thesis by (rule conjI)
qed

text \<open>
  C6, amended. A single invocation of a wrapper's \<^verbatim>\<open>predictions\<close> issues exactly one
  vendor call and never more: one \<^verbatim>\<open>antiPorn\<close> call, one \<^verbatim>\<open>safe_search_detection\<close>
  call, one \<^verbatim>\<open>object_localization\<close> call, or, for the offline model as its constructor
  builds it with a url that \<^verbatim>\<open>request.Request\<close> accepts, one \<^verbatim>\<open>urlopen\<close> of the POST
  request; an offline model whose url is refused (one that names no scheme) issues none.
  The calls added to the trace are exactly these, whatever the vendor answers: there is
  no retry and no further round trip.
\<close>

theorem one_vendor_call:
  "issued w (AipAntiPornModel_predictions E a img w) =
     [AntiPorn (aip_model a) (ndarray_to_bytes E img)] \<and>
   issued w (GoogleSafeSearchModel_predictions E s img w) =
     [SafeSearchDetection (gss_model s) \<lparr>content = ndarray_to_bytes E img\<rparr>] \<and>
   issued w (GoogleObjectDetectionModel_predictions E d img w) =
     [ObjectLocalization (god_model d) \<lparr>content = ndarray_to_bytes E img\<rparr>] \<and>
   issued w (GoogleOCRModel_predictions E c img w) =
     [ObjectLocalization (ocr_model c) \<lparr>content = ndarray_to_bytes E img\<rparr>] \<and>
   issued w (OfflineAntiPornModel_predictions E (OfflineAntiPornModel_init u b' c' p') img w) =
     (case request_url E u of
        Inl msg \<Rightarrow> []
      | Inr full \<Rightarrow> [UrlOpen (posted_request E full img w)])"
proof -
  have 1: "issued w (AipAntiPornModel_predictions E a img w) =
     [AntiPorn (aip_model a) (ndarray_to_bytes E img)]"
    by (simp add: issued_def AipAntiPornModel_predictions_def Let_def split: sum.split)
  have 2: "issued w (GoogleSafeSearchModel_predictions E s img w) =
     [SafeSearchDetection (gss_model s) \<lparr>content = ndarray_to_bytes E img\<rparr>]"
    by (simp add: issued_def GoogleSafeSearchModel_predictions_def Let_def split: sum.split)
  have 3: "issued w (GoogleObjectDetectionModel_predictions E d img w) =
     [ObjectLocalization (god_model d) \<lparr>content = ndarray_to_bytes E img\<rparr>]"
    by (simp add: issued_def GoogleObjectDetectionModel_predictions_def Let_def split: sum.split)
  have 4: "issued w (GoogleOCRModel_predictions E c img w) =
     [ObjectLocalization (ocr_model c) \<lparr>content = ndarray_to_bytes E img\<rparr>]"
    by (simp add: issued_def GoogleOCRModel_predictions_def Let_def split: sum.split)
  note 5 = offline_issued [of w E u b' c' p' img]
  from 1 2 3 4 5 show ?thesis by (intro conjI)
qed

subsection \<open>The OCR wrapper is the object detection wrapper\<close>

text \<open>
  C10. \<^verbatim>\<open>GoogleOCRModel.predictions\<close> and \<^verbatim>\<open>GoogleObjectDetectionModel.predictions\<close>
  are extensionally equal: on models that hold the same client, for every image and
  every vendor reply, both return the same value and leave the same world, the one call
  they issue is to \<^verbatim>\<open>object_localization\<close> (there is no text endpoint among the calls),
  and on a reply the value is the list of the dicts of its
  \<^verbatim>\<open>localized_object_annotations\<close>.
\<close>

theorem ocr_is_object_detection:
  assumes "ocr_model c = god_model d"
  shows "returned (GoogleOCRModel_predictions E c img w) =
           returned (GoogleObjectDetectionModel_predictions E d img w) \<and>
         world_after (GoogleOCRModel_predictions E c img w) =
           world_after (GoogleObjectDetectionModel_predictions E d img w) \<and>
         issued w (GoogleOCRModel_predictions E c img w) =
           [ObjectLocalization (ocr_model c) \<lparr>content = ndarray_to_bytes E img\<rparr>] \<and>
         (\<forall>reply. object_localization E (trace w) (ocr_model c)
                     \<lparr>content = ndarray_to_bytes E img\<rparr> = Inr reply \<longrightarrow>
            returned (GoogleOCRModel_predictions E c img w) =
              Inr (PList (map (\<lambda>ob. PDict (protobuf_to_dict ob))
                            (localized_object_annotations reply))))"
  using assms
  by (simp add: issued_def GoogleOCRModel_predictions_def
        GoogleObjectDetectionModel_predictions_def raised_def append_dicts_map Let_def
      split: sum.split)

theorem ocr_is_object_detection_witness:
  "returned (GoogleOCRModel_predictions sample_env sample_ocr sample_image world0) =
     returned (GoogleObjectDetectionModel_predictions sample_env sample_detection
                 sample_image world0) \<and>
   returned (GoogleOCRModel_predictions sample_env sample_ocr sample_image world0) =
     Inr (PList [PDict [(''mid'', PStr ''/m/01yrx''), (''name'', PStr ''Cat''),
                        (''score'', PFloat 0x3FEF5C28F5C28F5C)]])"
proof -
  have h: "ocr_model sample_ocr = god_model sample_detection"
    by (simp add: sample_ocr_def sample_detection_def)
  have r: "object_localization sample_env (trace world0) (ocr_model sample_ocr)
             \<lparr>content = ndarray_to_bytes sample_env sample_image\<rparr> = Inr sample_objects_reply"
    by (simp add: sample_env_def)
  have v: "map (\<lambda>ob. PDict (protobuf_to_dict ob)) (localized_object_annotations sample_objects_reply)
           = [PDict [(''mid'', PStr ''/m/01yrx''), (''name'', PStr ''Cat''),
                        (''score'', PFloat 0x3FEF5C28F5C28F5C)]]"
    by (simp add: localized_object_annotations_def sample_objects_reply_def protobuf_to_dict_def)
  note t = ocr_is_object_detection [OF h, of sample_env sample_image world0]
  from t have e: "returned (GoogleOCRModel_predictions sample_env sample_ocr sample_image world0) =
     returned (GoogleObjectDetectionModel_predictions sample_env sample_detection
                 sample_image world0)"
    by (rule conjunct1)
  from t r have "returned (GoogleOCRModel_predictions sample_env sample_ocr sample_image world0) =
              Inr (PList (map (\<lambda>ob. PDict (protobuf_to_dict ob))
                            (localized_object_annotations sample_objects_reply)))"
    by blast
  with v e show ?thesis by simp
qed

subsection \<open>Credentials at construction\<close>

lemma google_base_assertion:
  "is_assertion_error (GoogleCloudModel_init E b c p) =
     (os_environ E ''GOOGLE_APPLICATION_CREDENTIALS'' = None)"
  by (simp add: GoogleCloudModel_init_def is_assertion_error_def Let_def)

lemma google_base_cases:
  "GoogleCloudModel_init E b c p =
     (if os_environ E ''GOOGLE_APPLICATION_CREDENTIALS'' = None
      then Inl (AssertionError '' Credential GOOGLE_APPLICATION_CREDENTIALS needs to be set.'')
      else Inr (Model_init b c p))"
  by (simp add: GoogleCloudModel_init_def Let_def)

text \<open>
  C8. Constructing \<^verbatim>\<open>GoogleCloudModel\<close> or one of its subclasses raises
  \<^verbatim>\<open>AssertionError\<close> if and only if the environment variable
  \<^verbatim>\<open>GOOGLE_APPLICATION_CREDENTIALS\<close> is unset; and constructing \<^verbatim>\<open>AipModel\<close> or
  \<^verbatim>\<open>AipAntiPornModel\<close> succeeds only when the credential has exactly three elements,
  which become the \<^verbatim>\<open>appId\<close>, \<^verbatim>\<open>apiKey\<close> and \<^verbatim>\<open>secretKey\<close> fields, in this order.
\<close>

theorem constructors_check_credentials:
  "(is_assertion_error (GoogleCloudModel_init E b c p) =
      (os_environ E ''GOOGLE_APPLICATION_CREDENTIALS'' = None)) \<and>
   (is_assertion_error (GoogleSafeSearchModel_init E b c p) =
      (os_environ E ''GOOGLE_APPLICATION_CREDENTIALS'' = None)) \<and>
   (is_assertion_error (GoogleObjectDetectionModel_init E b c p) =
      (os_environ E ''GOOGLE_APPLICATION_CREDENTIALS'' = None)) \<and>
   (is_assertion_error (GoogleOCRModel_init E b c p) =
      (os_environ E ''GOOGLE_APPLICATION_CREDENTIALS'' = None)) \<and>
   (\<forall>m. AipModel_init credential b c p = Inr m \<longrightarrow>
        credential = [appId m, apiKey m, secretKey m]) \<and>
   (\<forall>m. AipAntiPornModel_init E credential b c p = Inr m \<longrightarrow>
        credential = [appId m, apiKey m, secretKey m])"
proof -
  have g: "is_assertion_error (GoogleSafeSearchModel_init E b c p) =
      (os_environ E ''GOOGLE_APPLICATION_CREDENTIALS'' = None)"
    by (simp add: GoogleSafeSearchModel_init_def google_base_cases is_assertion_error_def
          raised_def split: sum.split)
  have d: "is_assertion_error (GoogleObjectDetectionModel_init E b c p) =
      (os_environ E ''GOOGLE_APPLICATION_CREDENTIALS'' = None)"
    by (simp add: GoogleObjectDetectionModel_init_def google_base_cases is_assertion_error_def
          raised_def split: sum.split)
  have o: "is_assertion_error (GoogleOCRModel_init E b c p) =
      (os_environ E ''GOOGLE_APPLICATION_CREDENTIALS'' = None)"
    by (simp add: GoogleOCRModel_init_def google_base_cases is_assertion_error_def
          raised_def split: sum.split)
  have three: "length xs = 3 \<Longrightarrow> xs = [xs ! 0, xs ! 1, xs ! 2]" for xs :: "pyval list"
    by (cases xs; cases "tl xs"; cases "tl (tl xs)") auto
  have a: "AipModel_init credential b c p = Inr m \<Longrightarrow>
        credential = [appId m, apiKey m, secretKey m]" for m
    using three [of credential]
    by (auto simp add: AipModel_init_def Let_def split: if_splits)
  have ap: "AipAntiPornModel_init E credential b c p = Inr m \<Longrightarrow>
        credential = [appId m, apiKey m, secretKey m]" for m
    using a by (auto simp add: AipAntiPornModel_init_def split: sum.splits)
  from google_base_assertion g d o a ap show ?thesis by blast
qed

theorem constructors_check_credentials_witness:
  "\<not> is_assertion_error (GoogleSafeSearchModel_init sample_env
         (bounds sample_config) (channel_axis sample_config) (preprocessing sample_config)) \<and>
   is_assertion_error (GoogleSafeSearchModel_init (sample_env\<lparr>os_environ := Map.empty\<rparr>)
         (bounds sample_config) (channel_axis sample_config) (preprocessing sample_config)) \<and>
   AipAntiPornModel_init sample_env [PStr ''id'', PStr ''key'', PStr ''secret'']
         (bounds sample_config) (channel_axis sample_config) (preprocessing sample_config)
     = Inr sample_aip \<and>
   [PStr ''id'', PStr ''key'', PStr ''secret''] =
     [appId sample_aip, apiKey sample_aip, secretKey sample_aip]"
proof -
  have set: "os_environ sample_env ''GOOGLE_APPLICATION_CREDENTIALS'' \<noteq> None"
    by (simp add: sample_env_def)
  have unset: "os_environ (sample_env\<lparr>os_environ := Map.empty\<rparr>)
                 ''GOOGLE_APPLICATION_CREDENTIALS'' = None"
    by simp
  have ok: "AipAntiPornModel_init sample_env [PStr ''id'', PStr ''key'', PStr ''secret'']
         (bounds sample_config) (channel_axis sample_config) (preprocessing sample_config)
     = Inr sample_aip"
    by (simp add: AipAntiPornModel_init_def AipModel_init_def Model_init_def raised_def
          sample_env_def sample_aip_def Let_def)
  from constructors_check_credentials
         [of sample_env "bounds sample_config" "channel_axis sample_config"
             "preprocessing sample_config" "[PStr ''id'', PStr ''key'', PStr ''secret'']"]
       constructors_check_credentials
         [of "sample_env\<lparr>os_environ := Map.empty\<rparr>" "bounds sample_config"
             "channel_axis sample_config" "preprocessing sample_config"
             "[PStr ''id'', PStr ''key'', PStr ''secret'']"]
       set unset ok
  show ?thesis by blast
qed

subsection \<open>The offline request and reply\<close>

lemma unat_of_char: "unat (of_char c :: 8 word) = of_char c"
proof -
  have "unat (of_nat (of_char c) :: 8 word) = of_char c mod 2 ^ LENGTH(8)"
    by (rule unat_of_nat)
  then have "unat (of_char c :: 8 word) = of_char c mod 2 ^ LENGTH(8)"
    by (simp only: of_nat_of_char)
  also have "\<dots> = of_char c mod 256"
    by simp
  also have "\<dots> = of_char c"
    by (rule of_char_mod_256)
  finally show ?thesis .
qed

lemma char_of_byte: "char_of (unat (of_char c :: 8 word)) = c"
  by (simp only: unat_of_char char_of_char)

lemma decode_encode_ascii: "map (\<lambda>b. char_of (unat b)) (encode_ascii s) = s"
  unfolding encode_ascii_def
  by (induction s) (simp_all only: list.map char_of_byte)

text \<open>
  C1. For every image, \<^verbatim>\<open>OfflineAntiPornModel.predictions\<close>, on a model as its
  constructor builds it, builds a request message whose image field holds the serialized
  image bytes and whose classify types are exactly one entry, named \<^verbatim>\<open>antiporn\<close>, with
  \<^verbatim>\<open>topnum\<close> 5; the HTTP POST it sends (one when \<^verbatim>\<open>request.Request\<close> accepts the
  model's url, none when it raises) has as its body the ASCII JSON text of an object
  whose \<^verbatim>\<open>data\<close> field is the base64 text of the serialized message; and when the POST is answered and the answer decodes,
  the dict returned is the reply's JSON dict with its \<^verbatim>\<open>result\<close> entry replaced, in
  place, by the dict form of the message parsed from the base64-decoded entry.
\<close>

theorem offline_predictions_envelope:
  "build_proto_data (apiType (OfflineAntiPornModel_init u b c p)) (ndarray_to_bytes E img)
     = Inr (antiporn_request (ndarray_to_bytes E img)) \<and>
   issued w (OfflineAntiPornModel_predictions E (OfflineAntiPornModel_init u b c p) img w)
     = (case request_url E u of
          Inl msg \<Rightarrow> []
        | Inr full \<Rightarrow> [UrlOpen (posted_request E full img w)]) \<and>
   post_data (posted_request E full img w)
     = encode_ascii (json_dumps E (PDict
         (req_array E (fst (randint E 1000000 100000000 w))
            (SerializeToString E (antiporn_request (ndarray_to_bytes E img)))))) \<and>
   map_of (req_array E (fst (randint E 1000000 100000000 w))
            (SerializeToString E (antiporn_request (ndarray_to_bytes E img)))) ''data''
     = Some (PBytes (b64encode E
               (SerializeToString E (antiporn_request (ndarray_to_bytes E img))))) \<and>
   (\<forall>url' response reply d field raw msg.
      request_url E u = Inr url' \<and>
      urlopen_read E (trace w) (posted_request E url' img w) = Inr response \<and>
      decode_utf8 E response = Inr reply \<and>
      json_loads E reply = Inr (PDict d) \<and>
      map_of d ''result'' = Some field \<and>
      b64decode E field = Inr raw \<and>
      ParseFromString E raw = Inr msg \<longrightarrow>
      (\<exists>d'. returned (OfflineAntiPornModel_predictions E
                        (OfflineAntiPornModel_init u b c p) img w) = Inr (PDict d') \<and>
            map fst d' = map fst d \<and>
            map_of d' = (map_of d)(''result'' \<mapsto> PDict (protobuf_to_dict msg))))"
proof -
  have 1: "build_proto_data (apiType (OfflineAntiPornModel_init u b c p)) (ndarray_to_bytes E img)
     = Inr (antiporn_request (ndarray_to_bytes E img))"
    by (simp add: OfflineAntiPornModel_init_def build_proto_data_antiporn Let_def)
  note 2 = offline_issued [of w E u b c p img]
  have 3: "post_data (posted_request E full img w)
     = encode_ascii (json_dumps E (PDict
         (req_array E (fst (randint E 1000000 100000000 w))
            (SerializeToString E (antiporn_request (ndarray_to_bytes E img))))))"
    by (simp add: posted_request_def envelope_def)
  have 4: "map_of (req_array E logid data) ''data'' = Some (PBytes (b64encode E data))"
    for logid data
    by (simp add: req_array_def)
  have 5: "\<exists>d'. returned (OfflineAntiPornModel_predictions E
                        (OfflineAntiPornModel_init u b c p) img w) = Inr (PDict d') \<and>
            map fst d' = map fst d \<and>
            map_of d' = (map_of d)(''result'' \<mapsto> PDict (protobuf_to_dict msg))"
    if "request_url E u = Inr url'"
       "urlopen_read E (trace w) (posted_request E url' img w) = Inr response"
       "decode_utf8 E response = Inr reply"
       "json_loads E reply = Inr (PDict d)"
       "map_of d ''result'' = Some field"
       "b64decode E field = Inr raw"
       "ParseFromString E raw = Inr msg"
    for url' response reply d field raw msg
  proof -
    from that(5) have k: "''result'' \<in> fst ` set d"
      by (metis map_of_eq_None_iff option.distinct(1))
    from that have "returned (OfflineAntiPornModel_predictions E
                        (OfflineAntiPornModel_init u b c p) img w)
          = Inr (PDict (setitem d ''result'' (PDict (protobuf_to_dict msg))))"
      by (simp add: offline_predictions_unfold [OF that(1)] decode_response_def raised_def
            subscript_def getitem_def Let_def)
    moreover have "map fst (setitem d ''result'' (PDict (protobuf_to_dict msg))) = map fst d"
      using k by (simp add: setitem_def update_keys)
    moreover have "map_of (setitem d ''result'' (PDict (protobuf_to_dict msg)))
                     = (map_of d)(''result'' \<mapsto> PDict (protobuf_to_dict msg))"
      by (simp add: setitem_def update_conv')
    ultimately show ?thesis by blast
  qed
  from 1 2 3 4 5 show ?thesis by blast
qed

theorem offline_predictions_envelope_witness:
  "build_proto_data (apiType sample_offline) (ndarray_to_bytes sample_env sample_image)
     = Inr (antiporn_request [255, 0, 0, 255]) \<and>
   (\<exists>d'. returned (OfflineAntiPornModel_predictions sample_env sample_offline sample_image
                      world0) = Inr (PDict d') \<and>
         map fst d' = [''err_no'', ''result''] \<and>
         map_of d' ''err_no'' = Some (PInt 0) \<and>
         map_of d' ''result'' = Some (PDict (protobuf_to_dict sample_classify_response)))"
proof -
  let ?u = "''http://localhost:8080/classify''"
  note t = offline_predictions_envelope
             [of ?u "bounds sample_config" "channel_axis sample_config"
                 "preprocessing sample_config" sample_env sample_image world0]
  have o: "sample_offline = OfflineAntiPornModel_init ?u (bounds sample_config)
             (channel_axis sample_config) (preprocessing sample_config)"
    by (simp add: sample_offline_def)
  have i: "ndarray_to_bytes sample_env sample_image = [255, 0, 0, 255]"
    by (simp add: sample_env_def sample_image_def)
  have 1: "urlopen_read sample_env (trace world0) (posted_request sample_env ?u sample_image world0)
             = Inr (encode_ascii sample_response_text)"
    by (simp add: sample_env_def)
  have 2: "decode_utf8 sample_env (encode_ascii sample_response_text) = Inr sample_response_text"
    by (simp add: sample_env_def decode_encode_ascii)
  have 3: "json_loads sample_env sample_response_text
             = Inr (PDict [(''err_no'', PInt 0), (''result'', PStr ''CgA='')])"
    by (simp add: sample_env_def)
  have 4: "map_of [(''err_no'', PInt 0), (''result'', PStr ''CgA='')] ''result''
             = Some (PStr ''CgA='')"
    by simp
  have 5: "b64decode sample_env (PStr ''CgA='') = Inr [0x0A, 0x00]"
    by (simp add: sample_env_def)
  have 6: "ParseFromString sample_env [0x0A, 0x00] = Inr sample_classify_response"
    by (simp add: sample_env_def)
  from t have b: "build_proto_data (apiType sample_offline)
                    (ndarray_to_bytes sample_env sample_image)
                  = Inr (antiporn_request [255, 0, 0, 255])"
    unfolding o i by (rule conjunct1)
  note t5 = t [THEN conjunct2, THEN conjunct2, THEN conjunct2, THEN conjunct2, rule_format,
                OF conjI [OF sample_url_accepted
                     conjI [OF 1 conjI [OF 2 conjI [OF 3 conjI [OF 4 conjI [OF 5 6]]]]]]]
  from t5
  obtain d' where r: "returned (OfflineAntiPornModel_predictions sample_env sample_offline
                                  sample_image world0) = Inr (PDict d')"
    and k: "map fst d' = map fst [(''err_no'', PInt 0), (''result'', PStr ''CgA='')]"
    and m: "map_of d' = (map_of [(''err_no'', PInt 0), (''result'', PStr ''CgA='')])
                          (''result'' \<mapsto> PDict (protobuf_to_dict sample_classify_response))"
    unfolding o by (elim exE conjE)
  from k have c1: "map fst d' = [''err_no'', ''result'']" by simp
  from m have c2: "map_of d' ''err_no'' = Some (PInt 0)" by simp
  from m have c3: "map_of d' ''result''
                     = Some (PDict (protobuf_to_dict sample_classify_response))" by simp
  from r c1 c2 c3
  have e: "\<exists>d'. returned (OfflineAntiPornModel_predictions sample_env sample_offline
                          sample_image world0) = Inr (PDict d') \<and>
                map fst d' = [''err_no'', ''result''] \<and>
                map_of d' ''err_no'' = Some (PInt 0) \<and>
                map_of d' ''result'' = Some (PDict (protobuf_to_dict sample_classify_response))"
    by (intro exI [of _ d'] conjI)
  from b e show ?thesis by (rule conjI)
qed

text \<open>
  C9. When the HTTP POST raises (the request was built from the model's url, and
  \<^verbatim>\<open>urlopen\<close> or \<^verbatim>\<open>read\<close> raises), \<^verbatim>\<open>OfflineAntiPornModel.predictions\<close> neither
  propagates that exception nor returns a value: the exception is caught and printed, and the
  method raises \<^verbatim>\<open>UnboundLocalError\<close> for the local \<^verbatim>\<open>response\<close>, which was never
  assigned; the model object is as it was.
\<close>

theorem offline_post_failure:
  assumes "request_url E u = Inr full"
    and "urlopen_read E (trace w) (posted_request E full img w) = Inl e"
  shows "returned (OfflineAntiPornModel_predictions E (OfflineAntiPornModel_init u b c p) img w)
           = Inl (UnboundLocalError ''response'') \<and>
         stdout (world_after
                   (OfflineAntiPornModel_predictions E (OfflineAntiPornModel_init u b c p) img w))
           = stdout w @ [e] \<and>
         self_after (OfflineAntiPornModel_predictions E (OfflineAntiPornModel_init u b c p) img w)
           = OfflineAntiPornModel_init u b c p"
  using assms(2) by (simp add: offline_predictions_unfold [OF assms(1)] Let_def)

theorem offline_post_failure_witness:
  "returned (OfflineAntiPornModel_predictions
               (sample_env\<lparr>urlopen_read := (\<lambda>tr rq. Inl ''<urlopen error timed out>'')\<rparr>)
               sample_offline sample_image world0)
     = Inl (UnboundLocalError ''response'') \<and>
   stdout (world_after (OfflineAntiPornModel_predictions
               (sample_env\<lparr>urlopen_read := (\<lambda>tr rq. Inl ''<urlopen error timed out>'')\<rparr>)
               sample_offline sample_image world0))
     = [''<urlopen error timed out>'']"
proof -
  have f: "urlopen_read (sample_env\<lparr>urlopen_read := (\<lambda>tr rq. Inl ''<urlopen error timed out>'')\<rparr>)
             (trace world0)
             (posted_request
                (sample_env\<lparr>urlopen_read := (\<lambda>tr rq. Inl ''<urlopen error timed out>'')\<rparr>)
                ''http://localhost:8080/classify'' sample_image world0)
           = Inl ''<urlopen error timed out>''"
    by simp
  have s: "stdout world0 = []"
    by (simp add: world0_def)
  have a: "request_url
             (sample_env\<lparr>urlopen_read := (\<lambda>tr rq. Inl ''<urlopen error timed out>'')\<rparr>)
             ''http://localhost:8080/classify'' = Inr ''http://localhost:8080/classify''"
    by (simp add: sample_env_def names_scheme_def)
  from offline_post_failure [OF a f, of "bounds sample_config" "channel_axis sample_config"
         "preprocessing sample_config"] s
  show ?thesis by (simp add: sample_offline_def)
qed

subsection \<open>The request body across two invocations\<close>

lemma decimal_small: "n < 10 \<Longrightarrow> decimal n = [digit n]"
  by (simp add: decimal.simps)

lemma decimal_large: "\<not> n < 10 \<Longrightarrow> decimal n = decimal (n div 10) @ [digit (n mod 10)]"
  by (subst decimal.simps) simp

lemma encode_ascii_inj: "encode_ascii s = encode_ascii t \<Longrightarrow> s = t"
  by (metis decode_encode_ascii)

lemma sample_randint:
  "fst (randint sample_env 1000000 100000000 w) = 1000000 + int (random_pos w mod 99000001)"
  by (simp add: randint_def sample_env_def)

lemma randint_pos: "random_pos (snd (randint E a b w)) = random_pos w + 1"
  by (simp add: randint_def)

lemma sample_envelopes_differ:
  "envelope sample_env 1000000 d \<noteq> envelope sample_env 1000001 d"
proof
  assume "envelope sample_env 1000000 d = envelope sample_env 1000001 d"
  then have "json_dumps sample_env (PDict (req_array sample_env 1000000 d))
               = json_dumps sample_env (PDict (req_array sample_env 1000001 d))"
    unfolding envelope_def by (rule encode_ascii_inj)
  moreover have "json_dumps sample_env = sample_dumps"
    by (simp add: sample_env_def)
  ultimately have "sample_dumps (PDict (req_array sample_env 1000000 d))
                     = sample_dumps (PDict (req_array sample_env 1000001 d))"
    by simp
  then show False
    by (simp add: sample_dumps_def req_array_def dump_scalar_def decimal_small decimal_large
          digit_def)
qed

text \<open>
  C4, as stated, fails. The claim is that two invocations of
  \<^verbatim>\<open>OfflineAntiPornModel.predictions\<close> on one image send byte-for-byte identical request
  bodies. Each invocation draws \<^verbatim>\<open>logid = random.randint(1000000, 100000000)\<close> and
  writes it into the request object, so two invocations in a row on the sample image
  send bodies that differ in the log id.
\<close>

theorem offline_bodies_differ:
  "sent_bodies (trace (world_after
      (two_calls sample_env sample_offline sample_image world0))) =
     [envelope sample_env 1000000
        (SerializeToString sample_env
           (antiporn_request (ndarray_to_bytes sample_env sample_image))),
      envelope sample_env 1000001
        (SerializeToString sample_env
           (antiporn_request (ndarray_to_bytes sample_env sample_image)))] \<and>
   envelope sample_env 1000000
     (SerializeToString sample_env
        (antiporn_request (ndarray_to_bytes sample_env sample_image))) \<noteq>
   envelope sample_env 1000001
     (SerializeToString sample_env
        (antiporn_request (ndarray_to_bytes sample_env sample_image)))"
proof -
  let ?u = "''http://localhost:8080/classify''"
  let ?m = "OfflineAntiPornModel_init ?u (bounds sample_config) (channel_axis sample_config)
              (preprocessing sample_config)"
  let ?o1 = "OfflineAntiPornModel_predictions sample_env ?m sample_image world0"
  have s: "self_after ?o1 = ?m"
    by (simp add: offline_predictions_unfold [OF sample_url_accepted] Let_def
          split: sum.split)
  have tw: "trace world0 = []" and pw: "random_pos world0 = 0"
    by (simp_all add: world0_def)
  have t1: "trace (world_after ?o1) = [UrlOpen (posted_request sample_env ?u sample_image world0)]"
    by (simp add: offline_world_after [OF sample_url_accepted] tw)
  have p1: "random_pos (world_after ?o1) = 1"
    by (simp add: offline_predictions_unfold [OF sample_url_accepted] Let_def randint_pos
          pw split: sum.split)
  have t2: "trace (world_after (two_calls sample_env ?m sample_image world0)) =
              [UrlOpen (posted_request sample_env ?u sample_image world0),
               UrlOpen (posted_request sample_env ?u sample_image (world_after ?o1))]"
    unfolding two_calls_def Let_def s
    by (simp add: offline_world_after [OF sample_url_accepted] t1 tw)
  have l1: "fst (randint sample_env 1000000 100000000 world0) = 1000000"
    by (simp add: sample_randint pw)
  have l2: "fst (randint sample_env 1000000 100000000 (world_after ?o1)) = 1000001"
    by (simp add: sample_randint p1)
  have "sent_bodies (trace (world_after (two_calls sample_env ?m sample_image world0))) =
     [envelope sample_env 1000000
        (SerializeToString sample_env
           (antiporn_request (ndarray_to_bytes sample_env sample_image))),
      envelope sample_env 1000001
        (SerializeToString sample_env
           (antiporn_request (ndarray_to_bytes sample_env sample_image)))]"
    unfolding t2 by (simp add: posted_request_def l1 l2)
  then show ?thesis
    using sample_envelopes_differ by (simp add: sample_offline_def)
qed

text \<open>
  C4, amended. The request body is a fixed function of the image and of the log id that
  the invocation draws from the \<^verbatim>\<open>random\<close> module: two invocations on one image that
  draw the same log id send byte-for-byte identical bodies; on a model as the constructor
  builds it, with a url that \<^verbatim>\<open>request.Request\<close> accepts, the body is the envelope of
  that log id and of the serialized request for the image (with a url that is refused,
  nothing is sent); and two request objects for the same serialized message agree on every field
  other than \<^verbatim>\<open>logid\<close>, the \<^verbatim>\<open>data\<close> field among them.
\<close>

theorem offline_body_fixed_by_image_and_logid:
  assumes "fst (randint E 1000000 100000000 w) = fst (randint E 1000000 100000000 w')"
  shows "sent_bodies (issued w (OfflineAntiPornModel_predictions E self img w)) =
           sent_bodies (issued w' (OfflineAntiPornModel_predictions E self img w')) \<and>
         sent_bodies (issued w (OfflineAntiPornModel_predictions E
                                  (OfflineAntiPornModel_init u b c p) img w)) =
           (case request_url E u of
              Inl msg \<Rightarrow> []
            | Inr full \<Rightarrow>
                [envelope E (fst (randint E 1000000 100000000 w))
                   (SerializeToString E (antiporn_request (ndarray_to_bytes E img)))]) \<and>
         (\<forall>k l l' d. k \<noteq> ''logid'' \<longrightarrow>
            map_of (req_array E l d) k = map_of (req_array E l' d) k)"
proof -
  have body: "sent_bodies (issued v (OfflineAntiPornModel_predictions E self img v)) =
           (case build_proto_data (apiType self) (ndarray_to_bytes E img) of
              Inl e \<Rightarrow> []
            | Inr proto_data \<Rightarrow>
                (case request_url E (url self) of
                   Inl msg \<Rightarrow> []
                 | Inr full \<Rightarrow>
                     [envelope E (fst (randint E 1000000 100000000 v))
                        (SerializeToString E proto_data)]))" for v
    by (simp add: issued_def OfflineAntiPornModel_predictions_def envelope_def randint_def
          Request_init_def raised_def add_header_def Let_def split: sum.split prod.split)
  have 1: "sent_bodies (issued w (OfflineAntiPornModel_predictions E self img w)) =
           sent_bodies (issued w' (OfflineAntiPornModel_predictions E self img w'))"
    by (simp only: body assms)
  have 2: "sent_bodies (issued w (OfflineAntiPornModel_predictions E
                                  (OfflineAntiPornModel_init u b c p) img w)) =
           (case request_url E u of
              Inl msg \<Rightarrow> []
            | Inr full \<Rightarrow>
                [envelope E (fst (randint E 1000000 100000000 w))
                   (SerializeToString E (antiporn_request (ndarray_to_bytes E img)))])"
    by (simp add: offline_issued posted_request_def split: sum.split)
  have 3: "k \<noteq> ''logid'' \<Longrightarrow> map_of (req_array E l d) k = map_of (req_array E l' d) k"
    for k l l' d
    by (simp add: req_array_def)
  from 1 2 3 show ?thesis by blast
qed

theorem offline_body_fixed_by_image_and_logid_witness:
  "fst (randint sample_env 1000000 100000000 world0) = 1000000 \<and>
   fst (randint sample_env 1000000 100000000 (world0\<lparr>random_pos := 99000001\<rparr>)) = 1000000 \<and>
   sent_bodies (issued world0
      (OfflineAntiPornModel_predictions sample_env sample_offline sample_image world0)) =
   sent_bodies (issued (world0\<lparr>random_pos := 99000001\<rparr>)
      (OfflineAntiPornModel_predictions sample_env sample_offline sample_image
         (world0\<lparr>random_pos := 99000001\<rparr>)))"
proof -
  have l1: "fst (randint sample_env 1000000 100000000 world0) = 1000000"
    by (simp add: sample_randint world0_def)
  have l2: "fst (randint sample_env 1000000 100000000 (world0\<lparr>random_pos := 99000001\<rparr>))
              = 1000000"
    by (simp add: sample_randint)
  from l1 l2
  have h: "fst (randint sample_env 1000000 100000000 world0) =
           fst (randint sample_env 1000000 100000000 (world0\<lparr>random_pos := 99000001\<rparr>))"
    by simp
  note t = offline_body_fixed_by_image_and_logid [OF h, of sample_offline sample_image,
             THEN conjunct1]
  from l1 l2 t show ?thesis by (intro conjI)
qed

subsection \<open>The shape of what \<^verbatim>\<open>predictions\<close> returns\<close>

text \<open>
  C2. The claim is that every wrapper's \<^verbatim>\<open>predictions\<close> returns a list whose elements
  are dictionaries, as the docstrings say. The code does not: on the sample replies
  \<^verbatim>\<open>GoogleSafeSearchModel.predictions\<close> returns the safe-search annotation itself, a
  dict; \<^verbatim>\<open>OfflineAntiPornModel.predictions\<close> returns the reply dict; and
  \<^verbatim>\<open>AipAntiPornModel.predictions\<close> returns the vendor's dict when it has no
  \<^verbatim>\<open>result\<close> key. None of the three values is a list of dicts.
\<close>

theorem safe_search_and_offline_return_a_dict:
  "returned (GoogleSafeSearchModel_predictions sample_env sample_safe_search sample_image world0)
     = Inr (PDict [(''adult'', PInt 1), (''spoof'', PInt 1), (''medical'', PInt 2),
                   (''violence'', PInt 1), (''racy'', PInt 2)]) \<and>
   \<not> is_list_of_dicts (PDict [(''adult'', PInt 1), (''spoof'', PInt 1), (''medical'', PInt 2),
                              (''violence'', PInt 1), (''racy'', PInt 2)]) \<and>
   returned (OfflineAntiPornModel_predictions sample_env sample_offline sample_image world0)
     = Inr (PDict [(''err_no'', PInt 0),
                   (''result'', PDict (protobuf_to_dict sample_classify_response))]) \<and>
   \<not> is_list_of_dicts (PDict [(''err_no'', PInt 0),
                   (''result'', PDict (protobuf_to_dict sample_classify_response))]) \<and>
   returned (AipAntiPornModel_predictions
               (sample_env\<lparr>antiPorn := (\<lambda>tr cl bs. Inr sample_aip_error_reply)\<rparr>)
               sample_aip sample_image world0)
     = Inr (PDict sample_aip_error_reply) \<and>
   \<not> is_list_of_dicts (PDict sample_aip_error_reply)"
proof -
  have g: "returned (GoogleSafeSearchModel_predictions sample_env sample_safe_search
                       sample_image world0)
     = Inr (PDict [(''adult'', PInt 1), (''spoof'', PInt 1), (''medical'', PInt 2),
                   (''violence'', PInt 1), (''racy'', PInt 2)])"
    by (simp add: GoogleSafeSearchModel_predictions_def sample_env_def raised_def
          sample_safe_search_reply_def protobuf_to_dict_def getitem_def Let_def)
  have 1: "urlopen_read sample_env tr rq = Inr (encode_ascii sample_response_text)" for tr rq
    by (simp add: sample_env_def)
  have 2: "decode_utf8 sample_env (encode_ascii sample_response_text) = Inr sample_response_text"
    by (simp add: sample_env_def decode_encode_ascii)
  have 3: "json_loads sample_env sample_response_text
             = Inr (PDict [(''err_no'', PInt 0), (''result'', PStr ''CgA='')])"
    by (simp add: sample_env_def)
  have 5: "b64decode sample_env (PStr ''CgA='') = Inr [0x0A, 0x00]"
    by (simp add: sample_env_def)
  have 6: "ParseFromString sample_env [0x0A, 0x00] = Inr sample_classify_response"
    by (simp add: sample_env_def)
  have d: "decode_response sample_env (encode_ascii sample_response_text)
             = Inr (PDict [(''err_no'', PInt 0),
                   (''result'', PDict (protobuf_to_dict sample_classify_response))])"
    by (simp add: decode_response_def 2 3 5 6 raised_def subscript_def getitem_def setitem_def
          Let_def)
  have f: "returned (OfflineAntiPornModel_predictions sample_env sample_offline sample_image
                       world0)
     = Inr (PDict [(''err_no'', PInt 0),
                   (''result'', PDict (protobuf_to_dict sample_classify_response))])"
    unfolding sample_offline_def
    by (simp add: offline_predictions_unfold [OF sample_url_accepted] 1 d Let_def)
  have a: "returned (AipAntiPornModel_predictions
               (sample_env\<lparr>antiPorn := (\<lambda>tr cl bs. Inr sample_aip_error_reply)\<rparr>)
               sample_aip sample_image world0)
     = Inr (PDict sample_aip_error_reply)"
    by (simp add: AipAntiPornModel_predictions_def raised_def contains_def
          sample_aip_error_reply_def Let_def)
  have n: "\<not> is_list_of_dicts (PDict x)" for x
    by (simp add: is_list_of_dicts_def)
  from g f a n show ?thesis by (intro conjI)
qed

section \<open>Properties of \<^verbatim>\<open>set_seeds\<close>\<close>

text \<open>
  C7, as stated, fails. The claim is that \<^verbatim>\<open>set_seeds(s)\<close> seeds both generators for
  every integer \<open>s\<close>. For \<open>s = -1\<close> the call \<^verbatim>\<open>rng.seed(-1)\<close> seeds the first, and
  \<^verbatim>\<open>nprng.seed(-1)\<close> raises \<^verbatim>\<open>ValueError\<close>: the numpy generator keeps the state it
  had.
\<close>

theorem set_seeds_rejects_negative_seed:
  "set_seeds sample_libs (- 1) sample_rngs =
     (Some (ValueError ''Seed must be between 0 and 2**32 - 1''), \<lparr>rng = 1, nprng = 23\<rparr>) \<and>
   nprng (snd (set_seeds sample_libs (- 1) sample_rngs)) = nprng sample_rngs"
  by (simp add: set_seeds_def Random_seed_def RandomState_seed_def sample_libs_def
        sample_rngs_def Let_def)

text \<open>
  C7, amended. For every integer seed \<open>s\<close> with \<open>0 \<le> s < 2^32\<close>, \<^verbatim>\<open>set_seeds(s)\<close>
  raises nothing and leaves both generators in the states that their \<^verbatim>\<open>seed(s)\<close> gives,
  whatever the states were before; so two runs that call \<^verbatim>\<open>set_seeds\<close> with the same
  such seed and then make the same sequence of draws from \<^verbatim>\<open>rng\<close> and \<^verbatim>\<open>nprng\<close>
  obtain equal values.
\<close>

theorem set_seeds_reproducible:
  assumes "0 \<le> s" and "s < 2 ^ 32"
  shows "set_seeds L s m = (None, \<lparr>rng = Random_seed L s, nprng = np_init L (nat s)\<rparr>) \<and>
         RandomState_seed L s = Inr (np_init L (nat s)) \<and>
         fst (draw_all L ds (snd (set_seeds L s m))) =
           fst (draw_all L ds (snd (set_seeds L s m')))"
proof -
  from assms have n: "RandomState_seed L s = Inr (np_init L (nat s))"
    by (simp add: RandomState_seed_def)
  have e: "set_seeds L s x = (None, \<lparr>rng = Random_seed L s, nprng = np_init L (nat s)\<rparr>)"
    for x :: "('a, 'b) rngs"
    by (simp add: set_seeds_def n Let_def)
  from n e [of m] e [of m'] show ?thesis by simp
qed

theorem set_seeds_reproducible_witness:
  "set_seeds sample_libs 42 sample_rngs = (None, \<lparr>rng = 42, nprng = 43\<rparr>) \<and>
   fst (draw_all sample_libs [FromRng ''random'' [], FromNprng ''rand'' []]
          (snd (set_seeds sample_libs 42 sample_rngs))) =
   fst (draw_all sample_libs [FromRng ''random'' [], FromNprng ''rand'' []]
          (snd (set_seeds sample_libs 42 \<lparr>rng = 5, nprng = 9\<rparr>)))"
proof -
  have a: "(0::int) \<le> 42" and b: "(42::int) < 2 ^ 32"
    by simp_all
  note t = set_seeds_reproducible [OF a b, of sample_libs sample_rngs
             "[FromRng ''random'' [], FromNprng ''rand'' []]" "\<lparr>rng = 5, nprng = 9\<rparr>"]
  have r: "Random_seed sample_libs 42 = 42" and n: "np_init sample_libs (nat 42) = 43"
    by (simp_all add: Random_seed_def sample_libs_def)
  from t have c1: "set_seeds sample_libs 42 sample_rngs = (None, \<lparr>rng = 42, nprng = 43\<rparr>)"
    unfolding r n by (rule conjunct1)
  note c3 = t [THEN conjunct2, THEN conjunct2]
  from c1 c3 show ?thesis by (rule conjI)
qed

end
